theory Spec2Isabelle
  imports Complex_Main
begin

section \<open>Strings and numbers of the widget\<close>

text \<open>
  The colour-contrast widget (\<^verbatim>\<open>widget-src/code.tsx\<close>) works on JavaScript strings and
  numbers.

  \<^item> A string is a list of UTF-16 code units. The code units modelled are those below
    256 (ASCII and Latin-1, \<open>Latin1 c\<close>) and two more: U+0130, the capital I with a dot
    above, which is the one code unit that \<^verbatim>\<open>toLowerCase\<close> turns into two (the letter i
    and U+0307), and U+0307, the combining dot above, itself. No surrogate is among
    them, so the spread \<^verbatim>\<open>[...s]\<close> yields one element per code unit. Strings with other
    code units are outside the model.
  \<^item> A number is an exact real, or \<open>None\<close> for not-a-number. Rounding error of the
    double format, overflow and the infinities are not represented: a result of the model
    is the result of the widget up to the rounding error of its double arithmetic.
\<close>

datatype codeUnit = Latin1 char | U0130 | U0307

type_synonym jsString = "codeUnit list"

text \<open>A string literal of ASCII characters.\<close>

definition str :: "string \<Rightarrow> jsString" where
  "str s = map Latin1 s"

definition isLatin1 :: "codeUnit \<Rightarrow> bool" where
  "isLatin1 u = (case u of Latin1 c \<Rightarrow> True | U0130 \<Rightarrow> False | U0307 \<Rightarrow> False)"

type_synonym number = "real option"

text \<open>\<^verbatim>\<open>input.replace("#", "")\<close>: a string pattern replaces its first occurrence only.\<close>

fun replaceHash :: "jsString \<Rightarrow> jsString" where
  "replaceHash [] = []"
| "replaceHash (c # cs) = (if c = Latin1 CHR ''#'' then cs else c # replaceHash cs)"

text \<open>
  \<^verbatim>\<open>toLowerCase()\<close>. On code units below 256 the letters A to Z and the Latin-1
  capitals (192 to 214, 216 to 222) move up by 32 and everything else stays. U+0130
  becomes the two code units i and U+0307, so the lower-cased string can be longer than
  the string.
\<close>

definition toLowerChar :: "char \<Rightarrow> char" where
  "toLowerChar c =
     (let n = (of_char c :: nat)
      in if (65 \<le> n \<and> n \<le> 90) \<or> (192 \<le> n \<and> n \<le> 214) \<or> (216 \<le> n \<and> n \<le> 222)
         then char_of (n + 32) else c)"

definition toLowerUnit :: "codeUnit \<Rightarrow> jsString" where
  "toLowerUnit u =
     (case u of
        Latin1 c \<Rightarrow> [Latin1 (toLowerChar c)]
      | U0130 \<Rightarrow> [Latin1 CHR ''i'', U0307]
      | U0307 \<Rightarrow> [U0307])"

definition toLowerCase :: "jsString \<Rightarrow> jsString" where
  "toLowerCase s = concat (map toLowerUnit s)"

text \<open>\<^verbatim>\<open>const sanitisedHex = input.replace("#", "").toLowerCase()\<close>\<close>

definition sanitisedHex :: "jsString \<Rightarrow> jsString" where
  "sanitisedHex input = toLowerCase (replaceHash input)"

section \<open>Validation\<close>

text \<open>
  The regular expression \<^verbatim>\<open>/[0-9a-f]{6}/\<close> has no anchors: \<^verbatim>\<open>test\<close> tries a match of
  six characters of the class at every start position, from left to right.
\<close>

definition isLowerHexDigit :: "codeUnit \<Rightarrow> bool" where
  "isLowerHexDigit c = (c \<in> set (str ''0123456789abcdef''))"

definition matchesHere :: "jsString \<Rightarrow> bool" where
  "matchesHere s = (6 \<le> length s \<and> list_all isLowerHexDigit (take 6 s))"

fun regexTest :: "jsString \<Rightarrow> bool" where
  "regexTest [] = False"
| "regexTest (c # cs) = (matchesHere (c # cs) \<or> regexTest cs)"

text \<open>
  \<^verbatim>\<open>
  const validateHexString = (input: string) => {
    const regex = new RegExp(/[0-9a-f]{6}/);
    if (input.length === 6 || regex.test(input)) { return true; }
    return false;
  };
  \<close>
\<close>

definition validateHexString :: "jsString \<Rightarrow> bool" where
  "validateHexString input = (if length input = 6 \<or> regexTest input then True else False)"

section \<open>Conversion of a hex string to channels\<close>

text \<open>
  \<^verbatim>\<open>parseInt(s, 16)\<close>: leading white space is skipped, one sign is read, a prefix
  \<^verbatim>\<open>0x\<close> or \<^verbatim>\<open>0X\<close> is dropped, and the longest run of base-16 digits (either case) is
  the value; with no digit the result is not-a-number. (A negative zero is the number 0
  here.) U+0130 and U+0307 are neither white space nor digits.
\<close>

definition isWhiteSpace :: "codeUnit \<Rightarrow> bool" where
  "isWhiteSpace u =
     (case u of
        Latin1 c \<Rightarrow> (of_char c :: nat) \<in> {9, 10, 11, 12, 13, 32, 160}
      | U0130 \<Rightarrow> False
      | U0307 \<Rightarrow> False)"

definition digit16 :: "codeUnit \<Rightarrow> nat option" where
  "digit16 u =
     (case u of
        Latin1 c \<Rightarrow>
          (let n = (of_char c :: nat)
           in if 48 \<le> n \<and> n \<le> 57 then Some (n - 48)
              else if 97 \<le> n \<and> n \<le> 102 then Some (n - 87)
              else if 65 \<le> n \<and> n \<le> 70 then Some (n - 55)
              else None)
      | U0130 \<Rightarrow> None
      | U0307 \<Rightarrow> None)"

definition digitsValue :: "jsString \<Rightarrow> nat" where
  "digitsValue z = foldl (\<lambda>a c. case digit16 c of Some d \<Rightarrow> 16 * a + d | None \<Rightarrow> a) 0 z"

definition parseInt16 :: "jsString \<Rightarrow> number" where
  "parseInt16 string =
     (let s = dropWhile isWhiteSpace string;
          negative = (case s of [] \<Rightarrow> False | c # _ \<Rightarrow> c = Latin1 CHR ''-'');
          s1 = (case s of [] \<Rightarrow> []
                | c # cs \<Rightarrow> if c = Latin1 CHR ''+'' \<or> c = Latin1 CHR ''-'' then cs else s);
          s2 = (if take 2 s1 = str ''0x'' \<or> take 2 s1 = str ''0X'' then drop 2 s1 else s1);
          z = takeWhile (\<lambda>c. digit16 c \<noteq> None) s2
      in if z = [] then None
         else Some (if negative then - real (digitsValue z) else real (digitsValue z)))"

datatype error =
    Invalid_HEX_input             \<comment> \<open>\<^verbatim>\<open>new Error("Invalid HEX input")\<close>\<close>
  | Input_value_must_be_a_string  \<comment> \<open>\<^verbatim>\<open>new Error('Input value must be a string')\<close>\<close>

text \<open>
  \<^verbatim>\<open>chars[i]\<close> of the spread string; the validated string has at least six characters,
  and an index past the end would read \<^verbatim>\<open>undefined\<close>, which concatenates as the text
  "undefined".
\<close>

definition charAt :: "jsString \<Rightarrow> nat \<Rightarrow> jsString" where
  "charAt chars i = (if i < length chars then [chars ! i] else str ''undefined'')"

text \<open>
  \<^verbatim>\<open>
  const convertHexToRgb = (input: string) => {
    const sanitisedHex = input.replace("#", "").toLowerCase();
    if (validateHexString(sanitisedHex)) {
      const chars = [...sanitisedHex];
      return [
        parseInt(chars[0] + chars[1], 16),
        parseInt(chars[2] + chars[3], 16),
        parseInt(chars[4] + chars[5], 16),
      ];
    } else {
      throw new Error("Invalid HEX input");
    }
  };
  \<close>
\<close>

definition convertHexToRgb :: "jsString \<Rightarrow> error + number list" where
  "convertHexToRgb input =
     (let chars = sanitisedHex input
      in if validateHexString chars
         then Inr [parseInt16 (charAt chars 0 @ charAt chars 1),
                   parseInt16 (charAt chars 2 @ charAt chars 3),
                   parseInt16 (charAt chars 4 @ charAt chars 5)]
         else Inl Invalid_HEX_input)"

section \<open>Relative luminance\<close>

text \<open>
  Arithmetic on numbers: an operation with a not-a-number operand gives not-a-number, and
  a comparison with one is false.
\<close>

definition timesN :: "real \<Rightarrow> number \<Rightarrow> number" where
  "timesN w x = (case x of None \<Rightarrow> None | Some v \<Rightarrow> Some (w * v))"

definition plusN :: "number \<Rightarrow> number \<Rightarrow> number" where
  "plusN x y = (case x of None \<Rightarrow> None
                | Some a \<Rightarrow> (case y of None \<Rightarrow> None | Some b \<Rightarrow> Some (a + b)))"

definition lessN :: "number \<Rightarrow> number \<Rightarrow> bool" where
  "lessN x y = (case x of None \<Rightarrow> False
                | Some a \<Rightarrow> (case y of None \<Rightarrow> False | Some b \<Rightarrow> a < b))"

text \<open>
  The quotient of two numbers. A quotient by zero is an infinity, or not-a-number, in
  JavaScript; neither is a finite number and \<open>None\<close> stands for both here. Lemma
  \<open>denominator_positive\<close> below shows that the widget never divides by zero on a
  string input.
\<close>

definition divideN :: "number \<Rightarrow> number \<Rightarrow> number" where
  "divideN x y = (case x of None \<Rightarrow> None
                  | Some a \<Rightarrow> (case y of None \<Rightarrow> None
                              | Some b \<Rightarrow> if b = 0 then None else Some (a / b)))"

text \<open>
  \<^verbatim>\<open>Math.round(ratio*100)/100\<close>: \<^verbatim>\<open>Math.round\<close> gives the nearest integer, the upper one
  of two that are equally near. On exact reals the product \<^verbatim>\<open>ratio*100\<close> can lie exactly
  half-way between two integers, where the double that the widget computes lies a
  rounding error beside it and may go down: for \<^verbatim>\<open>#000406\<close> against \<^verbatim>\<open>#080801\<close> the exact
  product is 102.5 and the widget computes 102.49999999999999. What the model says of the
  rounded value beyond its being a nearest multiple of 0.01 of the quotient is therefore
  said of exact arithmetic only.
\<close>

definition mathRound :: "real \<Rightarrow> real" where
  "mathRound x = of_int \<lfloor>x + 1 / 2\<rfloor>"

definition roundTo2 :: "number \<Rightarrow> number" where
  "roundTo2 r = (case r of None \<Rightarrow> None | Some q \<Rightarrow> Some (mathRound (q * 100) / 100))"

text \<open>
  \<^verbatim>\<open>
  const calculateRelativeLuminanceComponent1 = (rgbValue: number) => {
    const relativeRgb = rgbValue/255;
    if (relativeRgb <=  0.03928) { return relativeRgb/12.92; }
    return ((relativeRgb + 0.055) / 1.055) ** 2.4;
  };
  \<close>
  The power is taken of a base above 0.03928 only, where \<^verbatim>\<open>**\<close> is the real power.
\<close>

definition calculateRelativeLuminanceComponent1 :: "number \<Rightarrow> number" where
  "calculateRelativeLuminanceComponent1 rgbValue =
     (case rgbValue of
        None \<Rightarrow> None
      | Some v \<Rightarrow>
          (let relativeRgb = v / 255
           in if relativeRgb \<le> 0.03928 then Some (relativeRgb / 12.92)
              else Some (((relativeRgb + 0.055) / 1.055) powr 2.4)))"

text \<open>\<^verbatim>\<open>input[i]\<close>: past the end of the array the element is \<^verbatim>\<open>undefined\<close>, not-a-number
  in arithmetic.\<close>

definition elementAt :: "number list \<Rightarrow> nat \<Rightarrow> number" where
  "elementAt input i = (if i < length input then input ! i else None)"

text \<open>
  \<^verbatim>\<open>
  const calculateRelativeLuminanceComponent2 = (input: Array<number>) => {
    return  0.2126 * calculateRelativeLuminanceComponent1(input[0])
      + 0.7152 * calculateRelativeLuminanceComponent1(input[1])
      + 0.0722 * calculateRelativeLuminanceComponent1(input[2]);
  };
  \<close>
\<close>

definition calculateRelativeLuminanceComponent2 :: "number list \<Rightarrow> number" where
  "calculateRelativeLuminanceComponent2 input =
     plusN (plusN (timesN 0.2126 (calculateRelativeLuminanceComponent1 (elementAt input 0)))
                  (timesN 0.7152 (calculateRelativeLuminanceComponent1 (elementAt input 1))))
           (timesN 0.0722 (calculateRelativeLuminanceComponent1 (elementAt input 2)))"

text \<open>\<^verbatim>\<open>type ColorContrastRatioCalculatorInput = string | Array<number>\<close>\<close>

datatype ColorContrastRatioCalculatorInput = Str jsString | Arr "number list"

text \<open>
  \<^verbatim>\<open>
  const calculateRelativeLuminance = (input: ColorContrastRatioCalculatorInput): number => {
    if (Array.isArray(input) && input.length === 3) {
      return  calculateRelativeLuminanceComponent2(input);
    } else if (typeof input === 'string') {
      const rgb = convertHexToRgb(input);
      return  calculateRelativeLuminanceComponent2(rgb);
    } else {
      throw new Error('Input value must be a string');
    }
  };
  \<close>
\<close>

fun calculateRelativeLuminance :: "ColorContrastRatioCalculatorInput \<Rightarrow> error + number" where
  "calculateRelativeLuminance (Arr input) =
     (if length input = 3 then Inr (calculateRelativeLuminanceComponent2 input)
      else Inl Input_value_must_be_a_string)"
| "calculateRelativeLuminance (Str input) =
     (case convertHexToRgb input of
        Inl e \<Rightarrow> Inl e
      | Inr rgb \<Rightarrow> Inr (calculateRelativeLuminanceComponent2 rgb))"

section \<open>Contrast ratio\<close>

text \<open>
  \<^verbatim>\<open>
  const colorContrastRatioCalculator = (foregroundColor, backgroundColor): number => {
    const fg = calculateRelativeLuminance(foregroundColor);
    const bg = calculateRelativeLuminance(backgroundColor);
    if (bg < fg) {
      const ratio = (fg + 0.05) / (bg + 0.05);
      return Math.round((ratio*100))/100;
    } else {
      const ratio = (bg + 0.05) / (fg + 0.05);
      return Math.round((ratio*100))/100;
    }
  };
  \<close>
\<close>

definition colorContrastRatioCalculator ::
  "ColorContrastRatioCalculatorInput \<Rightarrow> ColorContrastRatioCalculatorInput \<Rightarrow> error + number" where
  "colorContrastRatioCalculator foregroundColor backgroundColor =
     (case calculateRelativeLuminance foregroundColor of
        Inl e \<Rightarrow> Inl e
      | Inr fg \<Rightarrow>
          (case calculateRelativeLuminance backgroundColor of
             Inl e \<Rightarrow> Inl e
           | Inr bg \<Rightarrow>
               if lessN bg fg
               then Inr (roundTo2 (divideN (plusN fg (Some 0.05)) (plusN bg (Some 0.05))))
               else Inr (roundTo2 (divideN (plusN bg (Some 0.05)) (plusN fg (Some 0.05))))))"

section \<open>The input handlers of the widget\<close>

text \<open>
  The values the widget keeps with \<^verbatim>\<open>useSyncedState\<close>, and a notification shown by
  \<^verbatim>\<open>figma.notify(message, { error })\<close>.
\<close>

record syncedState =
  darkMode :: bool
  showLabels :: bool
  horizontalLayout :: bool
  foreground :: jsString
  background :: jsString
  foregroundLabel :: "jsString option"
  backgroundLabel :: "jsString option"
  ratio :: number

record notification =
  message :: string
  isError :: bool

text \<open>
  \<^verbatim>\<open>
  const validateForegroundInput = (input: string) => {
    const sanitisedHex = input.replace("#", "").toLowerCase();
    if (validateHexString(sanitisedHex)) {
      return setForeground(input)
    } else {
      figma.notify("Please enter a valid HEX value", { error: true })
    }
  }
  \<close>
  and the same for the background. A handler maps the state to the new state and the
  notifications it has shown.
\<close>

definition validateForegroundInput ::
  "jsString \<Rightarrow> syncedState \<Rightarrow> syncedState \<times> notification list" where
  "validateForegroundInput input st =
     (if validateHexString (sanitisedHex input)
      then (st\<lparr>foreground := input\<rparr>, [])
      else (st, [\<lparr>message = ''Please enter a valid HEX value'', isError = True\<rparr>]))"

definition validateBackgroundInput ::
  "jsString \<Rightarrow> syncedState \<Rightarrow> syncedState \<times> notification list" where
  "validateBackgroundInput input st =
     (if validateHexString (sanitisedHex input)
      then (st\<lparr>background := input\<rparr>, [])
      else (st, [\<lparr>message = ''Please enter a valid HEX value'', isError = True\<rparr>]))"

text \<open>The state of a new widget: the defaults given to \<^verbatim>\<open>useSyncedState\<close>.\<close>

definition initialState :: syncedState where
  "initialState = \<lparr>darkMode = False, showLabels = False, horizontalLayout = False,
     foreground = str ''#898989'', background = str ''#454545'',
     foregroundLabel = None, backgroundLabel = None, ratio = Some 0\<rparr>"

section \<open>Valid colours\<close>

text \<open>
  The colours the specification calls valid (its data model, \<open>ColorInput\<close>): a string of
  exactly six hexadecimal digits of either case, with or without one leading \<open>#\<close>, or a
  triple of channels in the range 0 to 255. These two predicates follow the
  specification; nothing in the widget computes them.
\<close>

definition isHexDigit :: "codeUnit \<Rightarrow> bool" where
  "isHexDigit c = (c \<in> set (str ''0123456789abcdefABCDEF''))"

definition validHexColor :: "jsString \<Rightarrow> bool" where
  "validHexColor s =
     (let t = (case s of [] \<Rightarrow> [] | c # cs \<Rightarrow> if c = Latin1 CHR ''#'' then cs else s)
      in length t = 6 \<and> list_all isHexDigit t)"

definition validChannel :: "number \<Rightarrow> bool" where
  "validChannel c = (case c of None \<Rightarrow> False | Some v \<Rightarrow> 0 \<le> v \<and> v \<le> 255)"

fun validColor :: "ColorContrastRatioCalculatorInput \<Rightarrow> bool" where
  "validColor (Str s) = validHexColor s"
| "validColor (Arr input) = (length input = 3 \<and> list_all validChannel input)"

text \<open>
  The per-channel transform and the weighted sum in the words of the specification
  (section 4.3), on real numbers.
\<close>

definition linearComponent :: "real \<Rightarrow> real" where
  "linearComponent c =
     (let normalized = c / 255
      in if normalized \<le> 0.03928 then normalized / 12.92
         else ((normalized + 0.055) / 1.055) powr 2.4)"

definition weightedLuminance :: "real \<Rightarrow> real \<Rightarrow> real \<Rightarrow> real" where
  "weightedLuminance r g b =
     0.2126 * linearComponent r + 0.7152 * linearComponent g + 0.0722 * linearComponent b"

section \<open>Stripping and lower-casing\<close>


lemma length_toLowerCase: "list_all isLatin1 s \<Longrightarrow> length (toLowerCase s) = length s"
  by (induction s) (auto simp add: toLowerCase_def toLowerUnit_def isLatin1_def split: codeUnit.splits)

lemma replaceHash_Latin1: "list_all isLatin1 s \<Longrightarrow> list_all isLatin1 (replaceHash s)"
  by (induction s) auto

lemma length_sanitisedHex:
  "list_all isLatin1 input \<Longrightarrow> length (sanitisedHex input) = length (replaceHash input)"
  by (simp add: sanitisedHex_def length_toLowerCase replaceHash_Latin1)

lemma replaceHash_no_hash: "Latin1 CHR ''#'' \<notin> set s \<Longrightarrow> replaceHash s = s"
  by (induction s) auto

lemma replaceHash_first:
  "Latin1 CHR ''#'' \<notin> set pre \<Longrightarrow> replaceHash (pre @ Latin1 CHR ''#'' # post) = pre @ post"
  by (induction pre) auto

lemma lower_table:
  "list_all (\<lambda>c. toLowerUnit c = [c] \<and> \<not> isWhiteSpace c \<and> c \<noteq> Latin1 CHR ''+'' \<and> c \<noteq> Latin1 CHR ''-''
      \<and> c \<noteq> Latin1 CHR ''x'' \<and> c \<noteq> Latin1 CHR ''X'' \<and> c \<noteq> Latin1 CHR ''#''
      \<and> (case digit16 c of None \<Rightarrow> False | Some d \<Rightarrow> d < 16)) (str ''0123456789abcdef'')"
  by code_simp

lemma lower_facts:
  assumes "isLowerHexDigit c"
  shows "toLowerUnit c = [c]" "\<not> isWhiteSpace c" "c \<noteq> Latin1 CHR ''+''" "c \<noteq> Latin1 CHR ''-''"
    "c \<noteq> Latin1 CHR ''x''" "c \<noteq> Latin1 CHR ''X''" "\<exists>d<16. digit16 c = Some d"
proof -
  from lower_table assms
  have *: "toLowerUnit c = [c] \<and> \<not> isWhiteSpace c \<and> c \<noteq> Latin1 CHR ''+'' \<and> c \<noteq> Latin1 CHR ''-''
      \<and> c \<noteq> Latin1 CHR ''x'' \<and> c \<noteq> Latin1 CHR ''X'' \<and> c \<noteq> Latin1 CHR ''#''
      \<and> (case digit16 c of None \<Rightarrow> False | Some d \<Rightarrow> d < 16)"
    unfolding isLowerHexDigit_def list_all_iff by blast
  then show "toLowerUnit c = [c]" "\<not> isWhiteSpace c" "c \<noteq> Latin1 CHR ''+''" "c \<noteq> Latin1 CHR ''-''"
    "c \<noteq> Latin1 CHR ''x''" "c \<noteq> Latin1 CHR ''X''"
    by simp_all
  from * show "\<exists>d<16. digit16 c = Some d" by (cases "digit16 c") auto
qed


lemma upper_table:
  "list_all (\<lambda>c. list_all isLowerHexDigit (toLowerUnit c) \<and> length (toLowerUnit c) = 1
      \<and> c \<noteq> Latin1 CHR ''#'') (str ''0123456789abcdefABCDEF'')"
  by code_simp

lemma toLowerUnit_hex:
  "isHexDigit c \<Longrightarrow> list_all isLowerHexDigit (toLowerUnit c) \<and> length (toLowerUnit c) = 1"
  using upper_table unfolding isHexDigit_def list_all_iff by blast

lemma toLowerCase_hex:
  "list_all isHexDigit t \<Longrightarrow>
     length (toLowerCase t) = length t \<and> list_all isLowerHexDigit (toLowerCase t)"
  by (induction t) (simp_all add: toLowerCase_def toLowerUnit_hex)

lemma hexDigit_not_hash: "isHexDigit c \<Longrightarrow> c \<noteq> Latin1 CHR ''#''"
  using upper_table unfolding isHexDigit_def list_all_iff by blast

section \<open>The regular expression\<close>

lemma matchesHere_append:
  "length run = 6 \<Longrightarrow> list_all isLowerHexDigit run \<Longrightarrow> matchesHere (run @ post)"
  by (simp add: matchesHere_def)

lemma regexTest_append:
  "length run = 6 \<Longrightarrow> list_all isLowerHexDigit run \<Longrightarrow> regexTest (pre @ run @ post)"
proof (induction pre)
  case Nil
  then obtain c cs where "run = c # cs" by (cases run) auto
  with Nil show ?case using matchesHere_append [of run post] by simp
next
  case (Cons p ps)
  then show ?case by simp
qed

lemma regexTest_run:
  "regexTest s \<Longrightarrow>
     \<exists>pre run post. s = pre @ run @ post \<and> length run = 6 \<and> list_all isLowerHexDigit run"
proof (induction s)
  case Nil
  then show ?case by simp
next
  case (Cons c cs)
  show ?case
  proof (cases "matchesHere (c # cs)")
    case True
    then have "c # cs = [] @ take 6 (c # cs) @ drop 6 (c # cs)"
      and "length (take 6 (c # cs)) = 6" and "list_all isLowerHexDigit (take 6 (c # cs))"
      by (simp_all add: matchesHere_def)
    then show ?thesis by blast
  next
    case False
    with Cons.prems have "regexTest cs" by simp
    then obtain pre run post
      where r: "cs = pre @ run @ post" "length run = 6" "list_all isLowerHexDigit run"
      using Cons.IH by blast
    then have "c # cs = (c # pre) @ run @ post" by simp
    with r(2,3) show ?thesis by blast
  qed
qed

lemma regexTest_length: "regexTest s \<Longrightarrow> 6 \<le> length s"
  using regexTest_run [of s] by auto

lemma validateHexString_length: "validateHexString s \<Longrightarrow> 6 \<le> length s"
  using regexTest_length [of s] by (auto simp add: validateHexString_def split: if_splits)

section \<open>Parsing a pair of digits\<close>

lemma parseInt16_pair:
  assumes "isLowerHexDigit a" "isLowerHexDigit b"
  shows "\<exists>v. parseInt16 [a, b] = Some v \<and> 0 \<le> v \<and> v \<le> 255"
proof -
  obtain da db where d: "digit16 a = Some da" "da < 16" "digit16 b = Some db" "db < 16"
    using lower_facts(7) [OF assms(1)] lower_facts(7) [OF assms(2)] by blast
  have "parseInt16 [a, b] = Some (real (16 * da + db))"
    using lower_facts(2-6) [OF assms(1)] lower_facts(5,6) [OF assms(2)] d
    by (simp add: parseInt16_def digitsValue_def Let_def str_def)
  moreover have "real (16 * da + db) \<le> 255" using d by simp
  ultimately show ?thesis by simp
qed

section \<open>Channels of a valid colour\<close>

lemma convert_six:
  assumes "length (sanitisedHex input) = 6"
  shows "convertHexToRgb input =
     Inr [parseInt16 [sanitisedHex input ! 0, sanitisedHex input ! 1],
          parseInt16 [sanitisedHex input ! 2, sanitisedHex input ! 3],
          parseInt16 [sanitisedHex input ! 4, sanitisedHex input ! 5]]"
  using assms by (simp add: convertHexToRgb_def validateHexString_def charAt_def Let_def)

lemma validHexColor_sanitised:
  assumes "validHexColor s"
  shows "length (sanitisedHex s) = 6 \<and> list_all isLowerHexDigit (sanitisedHex s)"
proof -
  define t where "t = (case s of [] \<Rightarrow> [] | c # cs \<Rightarrow> if c = Latin1 CHR ''#'' then cs else s)"
  from assms have t: "length t = 6" "list_all isHexDigit t"
    by (simp_all add: validHexColor_def t_def Let_def)
  then have nohash: "Latin1 CHR ''#'' \<notin> set t"
    using hexDigit_not_hash by (auto simp add: list_all_iff)
  have "replaceHash s = t"
  proof (cases s)
    case Nil
    then show ?thesis by (simp add: t_def)
  next
    case (Cons c cs)
    show ?thesis
    proof (cases "c = Latin1 CHR ''#''")
      case True
      with Cons show ?thesis by (simp add: t_def)
    next
      case False
      with Cons have "t = s" by (simp add: t_def)
      with nohash show ?thesis by (simp add: replaceHash_no_hash)
    qed
  qed
  then have "sanitisedHex s = toLowerCase t"
    by (simp add: sanitisedHex_def)
  with t show ?thesis
    using toLowerCase_hex [of t] by simp
qed

lemma convert_valid:
  assumes "validHexColor s"
  shows "\<exists>r g b. convertHexToRgb s = Inr [Some r, Some g, Some b]
           \<and> 0 \<le> r \<and> r \<le> 255 \<and> 0 \<le> g \<and> g \<le> 255 \<and> 0 \<le> b \<and> b \<le> 255"
proof -
  let ?h = "sanitisedHex s"
  from validHexColor_sanitised [OF assms]
  have len: "length ?h = 6" and dig: "list_all isLowerHexDigit ?h" by simp_all
  then have d: "\<And>i. i < 6 \<Longrightarrow> isLowerHexDigit (?h ! i)"
    by (simp add: list_all_length)
  obtain r where r: "parseInt16 [?h ! 0, ?h ! 1] = Some r" "0 \<le> r" "r \<le> 255"
    using parseInt16_pair [of "?h ! 0" "?h ! 1"] d by auto
  obtain g where g: "parseInt16 [?h ! 2, ?h ! 3] = Some g" "0 \<le> g" "g \<le> 255"
    using parseInt16_pair [of "?h ! 2" "?h ! 3"] d by auto
  obtain b where b: "parseInt16 [?h ! 4, ?h ! 5] = Some b" "0 \<le> b" "b \<le> 255"
    using parseInt16_pair [of "?h ! 4" "?h ! 5"] d by auto
  show ?thesis using convert_six [OF len] r g b by simp
qed

section \<open>Range of the luminance\<close>

lemma linearComponent_range:
  assumes "0 \<le> c" "c \<le> 255"
  shows "0 \<le> linearComponent c \<and> linearComponent c \<le> 1"
proof (cases "c / 255 \<le> 0.03928")
  case True
  then have "linearComponent c = c / 255 / 12.92" by (simp add: linearComponent_def)
  moreover have "0 \<le> c / 255 / 12.92" using assms by simp
  moreover have "c / 255 / 12.92 \<le> 1" using assms by simp
  ultimately show ?thesis by simp
next
  case False
  then have eq: "linearComponent c = ((c / 255 + 0.055) / 1.055) powr 2.4"
    by (simp add: linearComponent_def)
  have "0 \<le> (c / 255 + 0.055) / 1.055" using assms by simp
  moreover have "(c / 255 + 0.055) / 1.055 \<le> 1" using assms by simp
  ultimately have "((c / 255 + 0.055) / 1.055) powr 2.4 \<le> 1"
    by (intro powr_le1) simp_all
  with eq show ?thesis by simp
qed

lemma component1_linear:
  "calculateRelativeLuminanceComponent1 (Some v) = Some (linearComponent v)"
  by (simp add: calculateRelativeLuminanceComponent1_def linearComponent_def Let_def)

lemma component2_triple:
  "calculateRelativeLuminanceComponent2 [Some r, Some g, Some b] = Some (weightedLuminance r g b)"
  by (simp add: calculateRelativeLuminanceComponent2_def elementAt_def component1_linear
      timesN_def plusN_def weightedLuminance_def)

lemma weightedLuminance_range:
  assumes "0 \<le> r" "r \<le> 255" "0 \<le> g" "g \<le> 255" "0 \<le> b" "b \<le> 255"
  shows "0 \<le> weightedLuminance r g b \<and> weightedLuminance r g b \<le> 1"
proof -
  from assms have "0 \<le> linearComponent r" "linearComponent r \<le> 1"
    "0 \<le> linearComponent g" "linearComponent g \<le> 1"
    "0 \<le> linearComponent b" "linearComponent b \<le> 1"
    using linearComponent_range by simp_all
  then show ?thesis unfolding weightedLuminance_def by simp
qed

lemma luminance_valid:
  assumes "validColor A"
  shows "\<exists>l. calculateRelativeLuminance A = Inr (Some l) \<and> 0 \<le> l \<and> l \<le> 1"
proof (cases A)
  case (Str s)
  with assms have "validHexColor s" by simp
  then obtain r g b where c: "convertHexToRgb s = Inr [Some r, Some g, Some b]"
    "0 \<le> r" "r \<le> 255" "0 \<le> g" "g \<le> 255" "0 \<le> b" "b \<le> 255"
    using convert_valid by blast
  then show ?thesis
    using Str weightedLuminance_range [of r g b] by (simp add: component2_triple)
next
  case (Arr input)
  with assms have len: "length input = 3" and ch: "list_all validChannel input" by simp_all
  from len obtain x y z where xyz: "input = [x, y, z]"
    by (auto simp add: length_Suc_conv numeral_3_eq_3)
  with ch obtain r g b where v: "x = Some r" "y = Some g" "z = Some b"
    "0 \<le> r" "r \<le> 255" "0 \<le> g" "g \<le> 255" "0 \<le> b" "b \<le> 255"
    by (auto simp add: validChannel_def split: option.splits)
  then show ?thesis
    using Arr xyz weightedLuminance_range [of r g b] by (simp add: component2_triple)
qed

section \<open>Range of the ratio\<close>

lemma mathRound_mono: "x \<le> y \<Longrightarrow> mathRound x \<le> mathRound y"
  by (simp add: mathRound_def floor_mono)

lemma mathRound_of_int: "mathRound (of_int k) = of_int k"
  unfolding mathRound_def by (simp add: floor_eq_iff)

text \<open>The ratio of the code on two luminances: the larger plus 0.05 over the smaller plus 0.05.\<close>

lemma contrast_of_luminances:
  assumes "calculateRelativeLuminance A = Inr (Some la)"
    and "calculateRelativeLuminance B = Inr (Some lb)"
    and "0 \<le> la" "0 \<le> lb"
  shows "colorContrastRatioCalculator A B =
           Inr (Some (mathRound ((max la lb + 0.05) / (min la lb + 0.05) * 100) / 100))"
  using assms
  by (auto simp add: colorContrastRatioCalculator_def lessN_def plusN_def divideN_def roundTo2_def
      max_def min_def)

lemma ratio_range:
  fixes la lb :: real
  assumes "0 \<le> la" "la \<le> 1" "0 \<le> lb" "lb \<le> 1"
  shows "1 \<le> (max la lb + 0.05) / (min la lb + 0.05)"
    and "(max la lb + 0.05) / (min la lb + 0.05) \<le> 21"
proof -
  have pos: "0 < min la lb + 0.05" using assms by simp
  have "min la lb + 0.05 \<le> max la lb + 0.05" by simp
  then show "1 \<le> (max la lb + 0.05) / (min la lb + 0.05)"
    using pos by (simp add: le_divide_eq)
  have "max la lb + 0.05 \<le> 1.05" using assms by simp
  moreover have "1.05 \<le> 21 * (min la lb + 0.05)" using assms by simp
  ultimately have "max la lb + 0.05 \<le> 21 * (min la lb + 0.05)" by linarith
  then show "(max la lb + 0.05) / (min la lb + 0.05) \<le> 21"
    using pos by (simp add: divide_le_eq)
qed

lemma rounded_range:
  assumes "1 \<le> q" "q \<le> 21"
  shows "1 \<le> mathRound (q * 100) / 100 \<and> mathRound (q * 100) / 100 \<le> 21"
proof -
  have "mathRound (of_int 100) \<le> mathRound (q * 100)"
    using assms by (intro mathRound_mono) simp
  moreover have "mathRound (q * 100) \<le> mathRound (of_int 2100)"
    using assms by (intro mathRound_mono) simp
  ultimately show ?thesis by (simp only: mathRound_of_int) simp
qed

section \<open>Conversion of a validated string\<close>

lemma six_prefix:
  assumes "6 \<le> length h"
  shows "\<exists>a b c d e f rest. h = a # b # c # d # e # f # rest"
proof -
  from assms obtain a h1 where 1: "h = a # h1" "5 \<le> length h1" by (cases h) auto
  then obtain b h2 where 2: "h1 = b # h2" "4 \<le> length h2" by (cases h1) auto
  then obtain c h3 where 3: "h2 = c # h3" "3 \<le> length h3" by (cases h2) auto
  then obtain d h4 where 4: "h3 = d # h4" "2 \<le> length h4" by (cases h3) auto
  then obtain e h5 where 5: "h4 = e # h5" "1 \<le> length h5" by (cases h4) auto
  then obtain f h6 where 6: "h5 = f # h6" by (cases h5) auto
  with 1 2 3 4 5 show ?thesis by blast
qed

lemma convert_validated:
  assumes "validateHexString (sanitisedHex input)"
  shows "convertHexToRgb input =
     Inr [parseInt16 (take 2 (take 6 (sanitisedHex input))),
          parseInt16 (take 2 (drop 2 (take 6 (sanitisedHex input)))),
          parseInt16 (drop 4 (take 6 (sanitisedHex input)))]"
proof -
  from validateHexString_length [OF assms] obtain a b c d e f rest
    where h: "sanitisedHex input = a # b # c # d # e # f # rest"
    using six_prefix by blast
  with assms show ?thesis
    by (simp add: convertHexToRgb_def charAt_def)
qed

section \<open>Values at particular colours\<close>

lemma zzzzzz: "convertHexToRgb (str ''zzzzzz'') = Inr [None, None, None]"
  by code_simp

lemma black: "convertHexToRgb (str ''#000000'') = Inr [Some 0, Some 0, Some 0]"
  by code_simp

lemma white: "convertHexToRgb (str ''#FFFFFF'') = Inr [Some 255, Some 255, Some 255]"
  by code_simp

lemma component2_nan: "calculateRelativeLuminanceComponent2 [None, None, None] = None"
  by (simp add: calculateRelativeLuminanceComponent2_def elementAt_def
      calculateRelativeLuminanceComponent1_def timesN_def plusN_def)

lemma linearComponent_0: "linearComponent 0 = 0"
  by (simp add: linearComponent_def)

lemma linearComponent_255: "linearComponent 255 = 1"
  by (simp add: linearComponent_def)

lemma weighted_black: "weightedLuminance 0 0 0 = 0"
  by (simp add: weightedLuminance_def linearComponent_0)

lemma weighted_white: "weightedLuminance 255 255 255 = 1"
  by (simp add: weightedLuminance_def linearComponent_255)

lemma contrast_valid:
  assumes "validColor A" "validColor B"
  shows "\<exists>la lb. calculateRelativeLuminance A = Inr (Some la) \<and> 0 \<le> la \<and> la \<le> 1
           \<and> calculateRelativeLuminance B = Inr (Some lb) \<and> 0 \<le> lb \<and> lb \<le> 1
           \<and> colorContrastRatioCalculator A B =
               Inr (Some (mathRound ((max la lb + 0.05) / (min la lb + 0.05) * 100) / 100))"
proof -
  obtain la where la: "calculateRelativeLuminance A = Inr (Some la)" "0 \<le> la" "la \<le> 1"
    using luminance_valid [OF assms(1)] by blast
  obtain lb where lb: "calculateRelativeLuminance B = Inr (Some lb)" "0 \<le> lb" "lb \<le> 1"
    using luminance_valid [OF assms(2)] by blast
  from contrast_of_luminances [OF la(1) lb(1) la(2) lb(2)] la lb show ?thesis by blast
qed

lemma valid_white: "validColor (Str (str ''#FFFFFF''))"
  by (simp add: validHexColor_def isHexDigit_def str_def)

lemma valid_black: "validColor (Str (str ''#000000''))"
  by (simp add: validHexColor_def isHexDigit_def str_def)

lemma valid_grey: "validColor (Str (str ''#898989''))"
  by (simp add: validHexColor_def isHexDigit_def str_def)

lemma luminance_white: "calculateRelativeLuminance (Str (str ''#FFFFFF'')) = Inr (Some 1)"
  by (simp add: white component2_triple weighted_white)

lemma luminance_black: "calculateRelativeLuminance (Str (str ''#000000'')) = Inr (Some 0)"
  by (simp add: black component2_triple weighted_black)

lemma luminance_white_triple:
  "calculateRelativeLuminance (Arr [Some 255, Some 255, Some 255]) = Inr (Some 1)"
  by (simp add: component2_triple weighted_white)

lemma luminance_black_triple:
  "calculateRelativeLuminance (Arr [Some 0, Some 0, Some 0]) = Inr (Some 0)"
  by (simp add: component2_triple weighted_black)

lemma mathRound_numeral: "mathRound (numeral k) = numeral k"
  using mathRound_of_int [of "numeral k"] by simp

lemma ratio_white_black: "mathRound ((max 1 0 + 0.05) / (min 1 0 + 0.05) * 100) / 100 = 21"
  by (simp add: mathRound_numeral)

lemma ffff_invalid: "\<not> validateHexString (sanitisedHex (str ''ffff''))"
  by code_simp





lemma contrast_range_of_luminances:
  assumes "calculateRelativeLuminance A = Inr (Some la)" "0 \<le> la" "la \<le> 1"
    and "calculateRelativeLuminance B = Inr (Some lb)" "0 \<le> lb" "lb \<le> 1"
  shows "\<exists>q. colorContrastRatioCalculator A B = Inr (Some q) \<and> 1 \<le> q \<and> q \<le> 21"
proof -
  have "1 \<le> (max la lb + 0.05) / (min la lb + 0.05)" "(max la lb + 0.05) / (min la lb + 0.05) \<le> 21"
    using ratio_range [OF assms(2,3,5,6)] by simp_all
  from rounded_range [OF this] contrast_of_luminances [OF assms(1,4,2,5)] show ?thesis by blast
qed

lemma parse_fz: "parseInt16 (str ''fz'') = Some 15"
  by code_simp

lemma fzfzfz: "convertHexToRgb (str ''fzfzfz'') = Inr [Some 15, Some 15, Some 15]"
  by code_simp

lemma fzfzfz_not_hex: "\<not> list_all isHexDigit (str ''fzfzfz'')"
  by (simp add: isHexDigit_def str_def)

lemma abc_def: "length (replaceHash (str ''abc#def'')) = 6"
  by (simp add: str_def)

lemma abcdef_lower: "toLowerCase (str ''abcdef'') = str ''abcdef''"
  by code_simp

lemma parse_abcdef: "parseInt16 [Latin1 CHR ''a'', Latin1 CHR ''b''] = Some 171"
  "parseInt16 [Latin1 CHR ''c'', Latin1 CHR ''d''] = Some 205"
  "parseInt16 [Latin1 CHR ''e'', Latin1 CHR ''f''] = Some 239"
  by code_simp+

lemma digit16_less: "digit16 c = Some d \<Longrightarrow> d < 16"
  by (auto simp add: digit16_def Let_def split: if_splits codeUnit.splits)

section \<open>The divisor on a string input\<close>

lemma digitsValue_single: "digitsValue [c] \<le> 15"
  using digit16_less [of c] by (auto simp add: digitsValue_def split: option.splits)

lemma digitsValue_nil: "digitsValue [] = 0"
  by (simp add: digitsValue_def)

lemma takeWhile_short: "length s \<le> 1 \<Longrightarrow> takeWhile P s = [] \<or> (\<exists>c. takeWhile P s = [c])"
  by (cases s) auto

lemma digits_short:
  assumes "length s \<le> 1"
  shows "digitsValue (takeWhile P s) \<le> 15"
  using takeWhile_short [OF assms, of P] digitsValue_single by (auto simp add: digitsValue_nil)

lemma parseInt16_two_lower:
  assumes "parseInt16 [a, b] = Some v"
  shows "- 15 \<le> v"
proof -
  define s where "s = dropWhile isWhiteSpace [a, b]"
  have ls: "length s \<le> 2" unfolding s_def
    using length_dropWhile_le [of isWhiteSpace "[a, b]"] by simp
  show ?thesis
  proof (cases "\<exists>cs. s = Latin1 CHR ''-'' # cs")
    case True
    then obtain cs where cs: "s = Latin1 CHR ''-'' # cs" by blast
    with ls have lcs: "length cs \<le> 1" by simp
    define s2 where "s2 = (if take 2 cs = str ''0x'' \<or> take 2 cs = str ''0X'' then drop 2 cs else cs)"
    have "length s2 \<le> 1" using lcs by (simp add: s2_def)
    then have "digitsValue (takeWhile (\<lambda>c. digit16 c \<noteq> None) s2) \<le> 15"
      by (rule digits_short)
    moreover have "v = - real (digitsValue (takeWhile (\<lambda>c. digit16 c \<noteq> None) s2))"
      using assms cs unfolding parseInt16_def s_def [symmetric] s2_def
      by (auto simp add: Let_def split: if_splits)
    ultimately show ?thesis by simp
  next
    case False
    then have "\<not> (case s of [] \<Rightarrow> False | c # _ \<Rightarrow> c = Latin1 CHR ''-'')"
      by (cases s) auto
    then have "0 \<le> v"
      using assms unfolding parseInt16_def s_def [symmetric]
      by (auto simp add: Let_def split: if_splits)
    then show ?thesis by simp
  qed
qed

lemma component1_lower:
  assumes "calculateRelativeLuminanceComponent1 x = Some y" "x = Some v" "- 15 \<le> v"
  shows "- 0.005 \<le> y"
proof (cases "v / 255 \<le> 0.03928")
  case True
  with assms have "y = v / 255 / 12.92"
    by (simp add: calculateRelativeLuminanceComponent1_def Let_def)
  with assms(3) show ?thesis by simp
next
  case False
  with assms have "y = ((v / 255 + 0.055) / 1.055) powr 2.4"
    by (simp add: calculateRelativeLuminanceComponent1_def Let_def)
  then have "0 \<le> y" by simp
  then show ?thesis by simp
qed

lemma plusN_Some: "plusN x y = Some z \<Longrightarrow> \<exists>a b. x = Some a \<and> y = Some b \<and> z = a + b"
  by (auto simp add: plusN_def split: option.splits)

lemma timesN_Some: "timesN w x = Some z \<Longrightarrow> \<exists>v. x = Some v \<and> z = w * v"
  by (auto simp add: timesN_def split: option.splits)

lemma component2_Some:
  assumes "calculateRelativeLuminanceComponent2 [x1, x2, x3] = Some l"
  shows "\<exists>y1 y2 y3. calculateRelativeLuminanceComponent1 x1 = Some y1
           \<and> calculateRelativeLuminanceComponent1 x2 = Some y2
           \<and> calculateRelativeLuminanceComponent1 x3 = Some y3
           \<and> l = 0.2126 * y1 + 0.7152 * y2 + 0.0722 * y3"
proof -
  from assms have "plusN (plusN (timesN 0.2126 (calculateRelativeLuminanceComponent1 x1))
                  (timesN 0.7152 (calculateRelativeLuminanceComponent1 x2)))
           (timesN 0.0722 (calculateRelativeLuminanceComponent1 x3)) = Some l"
    by (simp add: calculateRelativeLuminanceComponent2_def elementAt_def)
  then obtain p t3 where 1: "plusN (timesN 0.2126 (calculateRelativeLuminanceComponent1 x1))
                  (timesN 0.7152 (calculateRelativeLuminanceComponent1 x2)) = Some p"
    "timesN 0.0722 (calculateRelativeLuminanceComponent1 x3) = Some t3" "l = p + t3"
    using plusN_Some by blast
  from 1(1) obtain t1 t2 where 2: "timesN 0.2126 (calculateRelativeLuminanceComponent1 x1) = Some t1"
    "timesN 0.7152 (calculateRelativeLuminanceComponent1 x2) = Some t2" "p = t1 + t2"
    using plusN_Some by blast
  from 2(1) obtain y1 where y1: "calculateRelativeLuminanceComponent1 x1 = Some y1" "t1 = 0.2126 * y1"
    using timesN_Some by blast
  from 2(2) obtain y2 where y2: "calculateRelativeLuminanceComponent1 x2 = Some y2" "t2 = 0.7152 * y2"
    using timesN_Some by blast
  from 1(2) obtain y3 where y3: "calculateRelativeLuminanceComponent1 x3 = Some y3" "t3 = 0.0722 * y3"
    using timesN_Some by blast
  from 1(3) 2(3) y1 y2 y3 show ?thesis by blast
qed

lemma denominator_positive:
  assumes "calculateRelativeLuminance (Str input) = Inr (Some l)"
  shows "0 < l + 0.05"
proof -
  from assms obtain rgb where rgb: "convertHexToRgb input = Inr rgb"
    and l: "calculateRelativeLuminanceComponent2 rgb = Some l"
    by (auto split: sum.splits)
  from rgb have v: "validateHexString (sanitisedHex input)"
    by (auto simp add: convertHexToRgb_def Let_def split: if_splits)
  from validateHexString_length [OF v] obtain a b c d e f rest
    where h: "sanitisedHex input = a # b # c # d # e # f # rest"
    using six_prefix by blast
  with rgb v have rgb': "rgb = [parseInt16 [a, b], parseInt16 [c, d], parseInt16 [e, f]]"
    by (simp add: convertHexToRgb_def charAt_def)
  from l obtain y1 y2 y3
    where y: "calculateRelativeLuminanceComponent1 (parseInt16 [a, b]) = Some y1"
      "calculateRelativeLuminanceComponent1 (parseInt16 [c, d]) = Some y2"
      "calculateRelativeLuminanceComponent1 (parseInt16 [e, f]) = Some y3"
      and leq: "l = 0.2126 * y1 + 0.7152 * y2 + 0.0722 * y3"
    unfolding rgb' using component2_Some by blast
  from y obtain v1 v2 v3 where p: "parseInt16 [a, b] = Some v1" "parseInt16 [c, d] = Some v2"
    "parseInt16 [e, f] = Some v3"
    by (auto simp add: calculateRelativeLuminanceComponent1_def split: option.splits)
  have "- 0.005 \<le> y1" "- 0.005 \<le> y2" "- 0.005 \<le> y3"
    using component1_lower [OF y(1) p(1) parseInt16_two_lower [OF p(1)]]
      component1_lower [OF y(2) p(2) parseInt16_two_lower [OF p(2)]]
      component1_lower [OF y(3) p(3) parseInt16_two_lower [OF p(3)]] by simp_all
  with leq show ?thesis by simp
qed

lemma rounded_near: "\<bar>mathRound (r * 100) / 100 - r\<bar> \<le> 1 / 200"
proof -
  have "\<bar>real_of_int \<lfloor>r * 100 + 1 / 2\<rfloor> - r * 100\<bar> \<le> 1 / 2" by linarith
  then have "\<bar>(real_of_int \<lfloor>r * 100 + 1 / 2\<rfloor> - r * 100) / 100\<bar> \<le> 1 / 2 / 100"
    by (simp only: abs_divide) simp
  moreover have "(real_of_int \<lfloor>r * 100 + 1 / 2\<rfloor> - r * 100) / 100 = mathRound (r * 100) / 100 - r"
    by (simp add: mathRound_def diff_divide_distrib)
  ultimately show ?thesis by simp
qed

lemma abc_def_Latin1: "list_all isLatin1 (str ''abc#def'')"
  by (simp add: str_def isLatin1_def)

lemma replace_abc_def: "replaceHash (str ''abc#def'') = str ''abcdef''"
  by (simp add: str_def)

section \<open>The claims\<close>

text \<open>
  C1. The specification asks that a six-character string with a character outside
  \<open>[0-9a-f]\<close> makes the conversion fail with an invalid-colour-format error, so that no
  not-a-number value reaches the ratio. The widget does not do so: \<open>zzzzzz\<close> has length
  six, passes \<open>validateHexString\<close>, and is converted to three not-a-number channels;
  the contrast ratio against black is then not-a-number as well.
\<close>

theorem C1_non_hex_string_is_converted:
  "convertHexToRgb (str ''zzzzzz'') = Inr [None, None, None]
   \<and> colorContrastRatioCalculator (Str (str ''zzzzzz'')) (Str (str ''#000000'')) = Inr None"
  by (simp add: zzzzzz black component2_nan component2_triple colorContrastRatioCalculator_def
      lessN_def plusN_def divideN_def roundTo2_def)

text \<open>
  C2, as stated: validation succeeds exactly when the string without its \<open>#\<close> has
  length six. The string \<open>fffffff\<close> has length seven and is accepted, because the
  regular expression finds six hexadecimal digits in it.
\<close>

theorem C2_seven_digits_accepted:
  "\<not> (validateHexString (sanitisedHex (str ''fffffff'')) \<longleftrightarrow> length (replaceHash (str ''fffffff'')) = 6)"
  by code_simp

text \<open>
  C2, amended: validation of the stripped and lower-cased string succeeds exactly when
  that string has length six (whatever its characters) or contains six consecutive
  characters of \<open>[0-9a-f]\<close>. For an input of code units below 256 lower-casing keeps the
  length, so that the first condition is that the stripped string has length six. So
  \<open>ffffff\<close>, \<open>#ffffff\<close>, \<open>zzzzzz\<close> and \<open>fffffff\<close> are accepted and \<open>ffff\<close> is not.
  U+0130 becomes two code units: followed by \<open>ffff\<close> it is accepted, followed by
  \<open>fffff\<close> it is not.
\<close>

theorem C2_validateHexString_iff:
  "(validateHexString (sanitisedHex input) \<longleftrightarrow>
      length (sanitisedHex input) = 6
      \<or> (\<exists>pre run post. sanitisedHex input = pre @ run @ post \<and> length run = 6
            \<and> list_all isLowerHexDigit run))
   \<and> (list_all isLatin1 input \<longrightarrow> length (sanitisedHex input) = length (replaceHash input))
   \<and> validateHexString (sanitisedHex (str ''ffffff''))
   \<and> validateHexString (sanitisedHex (str ''#ffffff''))
   \<and> validateHexString (sanitisedHex (str ''zzzzzz''))
   \<and> validateHexString (sanitisedHex (str ''fffffff''))
   \<and> \<not> validateHexString (sanitisedHex (str ''ffff''))
   \<and> validateHexString (sanitisedHex (U0130 # str ''ffff''))
   \<and> \<not> validateHexString (sanitisedHex (U0130 # str ''fffff''))"
proof -
  have "validateHexString (sanitisedHex input) \<longleftrightarrow>
      length (sanitisedHex input) = 6
      \<or> (\<exists>pre run post. sanitisedHex input = pre @ run @ post \<and> length run = 6
            \<and> list_all isLowerHexDigit run)"
    using regexTest_run [of "sanitisedHex input"] regexTest_append
    by (auto simp add: validateHexString_def)
  moreover have "list_all isLatin1 input \<longrightarrow> length (sanitisedHex input) = length (replaceHash input)"
    by (simp add: length_sanitisedHex)
  moreover have "validateHexString (sanitisedHex (str ''ffffff''))" by code_simp
  moreover have "validateHexString (sanitisedHex (str ''#ffffff''))" by code_simp
  moreover have "validateHexString (sanitisedHex (str ''zzzzzz''))" by code_simp
  moreover have "validateHexString (sanitisedHex (str ''fffffff''))" by code_simp
  moreover have "\<not> validateHexString (sanitisedHex (str ''ffff''))" by code_simp
  moreover have "validateHexString (sanitisedHex (U0130 # str ''ffff''))" by code_simp
  moreover have "\<not> validateHexString (sanitisedHex (U0130 # str ''fffff''))" by code_simp
  ultimately show ?thesis by blast
qed

theorem C2_validateHexString_iff_00abcdef:
  "list_all isLatin1 (str ''00abcdef'')
   \<and> length (sanitisedHex (str ''00abcdef'')) = 8
   \<and> length (replaceHash (str ''00abcdef'')) = 8
   \<and> validateHexString (sanitisedHex (str ''00abcdef''))"
proof -
  have l: "list_all isLatin1 (str ''00abcdef'')" by (simp add: str_def isLatin1_def)
  have r: "length (replaceHash (str ''00abcdef'')) = 8" by (simp add: str_def)
  have "sanitisedHex (str ''00abcdef'') = str ''00'' @ str ''abcdef'' @ []" by code_simp
  moreover have "length (str ''abcdef'') = 6" "list_all isLowerHexDigit (str ''abcdef'')"
    by (simp_all add: isLowerHexDigit_def str_def)
  ultimately have "\<exists>pre run post. sanitisedHex (str ''00abcdef'') = pre @ run @ post \<and> length run = 6
      \<and> list_all isLowerHexDigit run" by blast
  then show ?thesis using C2_validateHexString_iff [of "str ''00abcdef''"] l r by simp
qed

text \<open>
  C3. For channels \<open>r\<close>, \<open>g\<close>, \<open>b\<close> between 0 and 255 the luminance of the triple is
  computed: each channel \<open>c\<close> is normalised to \<open>n = c / 255\<close> and becomes \<open>n / 12.92\<close> when
  \<open>n \<le> 0.03928\<close> and \<open>((n + 0.055) / 1.055)\<close> to the power 2.4 otherwise; the luminance is the
  sum of the three with weights 0.2126, 0.7152 and 0.0722, and lies between 0 and 1.
\<close>

theorem C3_relativeLuminance:
  assumes "0 \<le> r" "r \<le> 255" "0 \<le> g" "g \<le> 255" "0 \<le> b" "b \<le> 255"
  shows "calculateRelativeLuminanceComponent1 (Some r) =
           Some (if r / 255 \<le> 0.03928 then r / 255 / 12.92
                 else ((r / 255 + 0.055) / 1.055) powr 2.4)
         \<and> (\<exists>L. calculateRelativeLuminance (Arr [Some r, Some g, Some b]) = Inr (Some L)
               \<and> L = 0.2126 * linearComponent r + 0.7152 * linearComponent g
                      + 0.0722 * linearComponent b
               \<and> 0 \<le> L \<and> L \<le> 1)"
proof -
  have "calculateRelativeLuminanceComponent1 (Some r) =
           Some (if r / 255 \<le> 0.03928 then r / 255 / 12.92
                 else ((r / 255 + 0.055) / 1.055) powr 2.4)"
    by (simp add: calculateRelativeLuminanceComponent1_def Let_def)
  moreover have "calculateRelativeLuminance (Arr [Some r, Some g, Some b]) =
           Inr (Some (weightedLuminance r g b))"
    by (simp add: component2_triple)
  moreover have "weightedLuminance r g b = 0.2126 * linearComponent r + 0.7152 * linearComponent g
                      + 0.0722 * linearComponent b"
    by (simp add: weightedLuminance_def)
  ultimately show ?thesis using weightedLuminance_range [OF assms] by simp
qed

theorem C3_relativeLuminance_white:
  "(0::real) \<le> 255
   \<and> calculateRelativeLuminance (Arr [Some 255, Some 255, Some 255]) = Inr (Some 1)"
  using C3_relativeLuminance [of 255 255 255] by (simp add: linearComponent_255)

text \<open>
  C4. For valid colours \<open>A\<close> and \<open>B\<close> (a string of six hexadecimal digits with or
  without \<open>#\<close>, or a triple of channels between 0 and 255) the contrast ratio of \<open>A\<close>
  against \<open>B\<close> is a number and equals the contrast ratio of \<open>B\<close> against \<open>A\<close>.
\<close>

theorem C4_contrast_symmetric:
  assumes "validColor A" "validColor B"
  shows "\<exists>q. colorContrastRatioCalculator A B = Inr (Some q)
            \<and> colorContrastRatioCalculator B A = Inr (Some q)"
proof -
  obtain la where la: "calculateRelativeLuminance A = Inr (Some la)" "0 \<le> la"
    using luminance_valid [OF assms(1)] by blast
  obtain lb where lb: "calculateRelativeLuminance B = Inr (Some lb)" "0 \<le> lb"
    using luminance_valid [OF assms(2)] by blast
  have ab: "colorContrastRatioCalculator A B =
      Inr (Some (mathRound ((max la lb + 0.05) / (min la lb + 0.05) * 100) / 100))"
    using contrast_of_luminances [OF la(1) lb(1) la(2) lb(2)] .
  have "colorContrastRatioCalculator B A =
      Inr (Some (mathRound ((max lb la + 0.05) / (min lb la + 0.05) * 100) / 100))"
    using contrast_of_luminances [OF lb(1) la(1) lb(2) la(2)] .
  then have ba: "colorContrastRatioCalculator B A =
      Inr (Some (mathRound ((max la lb + 0.05) / (min la lb + 0.05) * 100) / 100))"
    by (simp only: max.commute [of lb la] min.commute [of lb la])
  from ab ba show ?thesis by blast
qed

theorem C4_contrast_symmetric_white_black:
  "validColor (Str (str ''#FFFFFF'')) \<and> validColor (Str (str ''#000000''))
   \<and> colorContrastRatioCalculator (Str (str ''#FFFFFF'')) (Str (str ''#000000'')) = Inr (Some 21)
   \<and> colorContrastRatioCalculator (Str (str ''#000000'')) (Str (str ''#FFFFFF'')) = Inr (Some 21)"
proof -
  have "colorContrastRatioCalculator (Str (str ''#FFFFFF'')) (Str (str ''#000000'')) = Inr (Some 21)"
    using contrast_of_luminances [OF luminance_white luminance_black] ratio_white_black by simp
  then show ?thesis
    using C4_contrast_symmetric [OF valid_white valid_black] valid_white valid_black by auto
qed

text \<open>
  C5. For valid colours \<open>A\<close> and \<open>B\<close> the contrast ratio is the larger luminance plus
  0.05 over the smaller luminance plus 0.05, rounded to two decimals, and lies between 1
  and 21: it is a whole number of hundredths, at most half a hundredth away from the
  quotient. (Which of two equally near hundredths is returned is not stated: that depends
  on the rounding error of the double arithmetic.)
\<close>

theorem C5_contrast_range:
  assumes "validColor A" "validColor B"
  shows "\<exists>la lb q k. calculateRelativeLuminance A = Inr (Some la)
           \<and> calculateRelativeLuminance B = Inr (Some lb)
           \<and> colorContrastRatioCalculator A B = Inr (Some q)
           \<and> q = real_of_int k / 100
           \<and> \<bar>q - (max la lb + 0.05) / (min la lb + 0.05)\<bar> \<le> 1 / 200
           \<and> 1 \<le> q \<and> q \<le> 21"
proof -
  obtain la lb where l: "calculateRelativeLuminance A = Inr (Some la)" "0 \<le> la" "la \<le> 1"
    "calculateRelativeLuminance B = Inr (Some lb)" "0 \<le> lb" "lb \<le> 1"
    "colorContrastRatioCalculator A B =
       Inr (Some (mathRound ((max la lb + 0.05) / (min la lb + 0.05) * 100) / 100))"
    using contrast_valid [OF assms] by blast
  let ?r = "(max la lb + 0.05) / (min la lb + 0.05)"
  let ?q = "mathRound (?r * 100) / 100"
  have "1 \<le> ?r" "?r \<le> 21"
    using ratio_range [OF l(2,3,5,6)] by simp_all
  from rounded_range [OF this] have b: "1 \<le> ?q" "?q \<le> 21" by simp_all
  have k: "?q = real_of_int \<lfloor>?r * 100 + 1 / 2\<rfloor> / 100" by (simp only: mathRound_def)
  have n: "\<bar>?q - ?r\<bar> \<le> 1 / 200" by (rule rounded_near)
  from l(1,4,7) k n b show ?thesis by blast
qed

theorem C5_contrast_range_grey_black:
  "validColor (Str (str ''#898989'')) \<and> validColor (Str (str ''#000000''))
   \<and> (\<exists>q. colorContrastRatioCalculator (Str (str ''#898989'')) (Str (str ''#000000'')) = Inr (Some q)
          \<and> 1 \<le> q \<and> q \<le> 21)"
  using C5_contrast_range [OF valid_grey valid_black] valid_grey valid_black by blast

text \<open>
  C6. The contrast ratio of white against black is exactly 21, for the strings
  \<open>#FFFFFF\<close> and \<open>#000000\<close> and for the triples \<open>[255,255,255]\<close> and \<open>[0,0,0]\<close>; the
  contrast ratio of every valid colour against itself is exactly 1.
\<close>

theorem C6_extremes_and_self_contrast:
  "colorContrastRatioCalculator (Str (str ''#FFFFFF'')) (Str (str ''#000000'')) = Inr (Some 21)
   \<and> colorContrastRatioCalculator (Arr [Some 255, Some 255, Some 255]) (Arr [Some 0, Some 0, Some 0])
       = Inr (Some 21)
   \<and> (\<forall>A. validColor A \<longrightarrow> colorContrastRatioCalculator A A = Inr (Some 1))"
proof -
  have "colorContrastRatioCalculator (Str (str ''#FFFFFF'')) (Str (str ''#000000'')) = Inr (Some 21)"
    using contrast_of_luminances [OF luminance_white luminance_black] ratio_white_black by simp
  moreover have "colorContrastRatioCalculator (Arr [Some 255, Some 255, Some 255])
       (Arr [Some 0, Some 0, Some 0]) = Inr (Some 21)"
    using contrast_of_luminances [OF luminance_white_triple luminance_black_triple]
      ratio_white_black by simp
  moreover have "colorContrastRatioCalculator A A = Inr (Some 1)" if v: "validColor A" for A
  proof -
    obtain la where la: "calculateRelativeLuminance A = Inr (Some la)" "0 \<le> la"
      using luminance_valid [OF v] by blast
    have "(la + 0.05) / (la + 0.05) = 1" using la(2) by simp
    then have "mathRound ((max la la + 0.05) / (min la la + 0.05) * 100) / 100 = 1"
      by (simp add: mathRound_numeral)
    then show ?thesis
      using contrast_of_luminances [OF la(1) la(1) la(2) la(2)] by simp
  qed
  ultimately show ?thesis by blast
qed

theorem C6_self_contrast_grey:
  "validColor (Str (str ''#898989''))
   \<and> colorContrastRatioCalculator (Str (str ''#898989'')) (Str (str ''#898989'')) = Inr (Some 1)"
  using C6_extremes_and_self_contrast valid_grey by blast

text \<open>
  C7. When the string entered for the foreground or the background fails validation, the
  handler leaves every field of the state as it was and shows the notification
  \<open>Please enter a valid HEX value\<close>, marked as an error; it returns normally.
\<close>

theorem C7_invalid_input_keeps_state:
  assumes "\<not> validateHexString (sanitisedHex input)"
  shows "validateForegroundInput input st =
           (st, [\<lparr>message = ''Please enter a valid HEX value'', isError = True\<rparr>])
         \<and> validateBackgroundInput input st =
           (st, [\<lparr>message = ''Please enter a valid HEX value'', isError = True\<rparr>])"
  using assms by (simp add: validateForegroundInput_def validateBackgroundInput_def)

theorem C7_invalid_input_keeps_state_ffff:
  "\<not> validateHexString (sanitisedHex (str ''ffff''))
   \<and> fst (validateForegroundInput (str ''ffff'') initialState) = initialState
   \<and> foreground (fst (validateForegroundInput (str ''ffff'') initialState)) = str ''#898989''
   \<and> snd (validateBackgroundInput (str ''ffff'') initialState) =
       [\<lparr>message = ''Please enter a valid HEX value'', isError = True\<rparr>]"
  using C7_invalid_input_keeps_state [OF ffff_invalid, of initialState] ffff_invalid
  by (simp add: initialState_def)



text \<open>
  C9. Some six-character inputs with characters that are no hexadecimal digits are
  converted to finite channels, not to not-a-number: a pair is parsed by its longest
  prefix of digits, so \<open>fz\<close> is 15 and \<open>fzfzfz\<close> is the triple \<open>[15,15,15]\<close>, whose
  contrast ratio against white is a finite number between 1 and 21.
\<close>

theorem C9_prefix_parsing_gives_finite_ratio:
  "parseInt16 (str ''fz'') = Some 15
   \<and> \<not> list_all isHexDigit (str ''fzfzfz'')
   \<and> convertHexToRgb (str ''fzfzfz'') = Inr [Some 15, Some 15, Some 15]
   \<and> (\<exists>q. colorContrastRatioCalculator (Str (str ''fzfzfz'')) (Str (str ''#FFFFFF'')) = Inr (Some q)
          \<and> 1 \<le> q \<and> q \<le> 21)"
proof -
  have l: "calculateRelativeLuminance (Str (str ''fzfzfz'')) = Inr (Some (weightedLuminance 15 15 15))"
    by (simp add: fzfzfz component2_triple)
  have r: "0 \<le> weightedLuminance 15 15 15" "weightedLuminance 15 15 15 \<le> 1"
    using weightedLuminance_range [of 15 15 15] by simp_all
  have "\<exists>q. colorContrastRatioCalculator (Str (str ''fzfzfz'')) (Str (str ''#FFFFFF'')) = Inr (Some q)
          \<and> 1 \<le> q \<and> q \<le> 21"
    using contrast_range_of_luminances [OF l r luminance_white] by simp
  with parse_fz fzfzfz fzfzfz_not_hex show ?thesis by blast
qed

text \<open>
  C10, as stated: for every input whose stripped string has exactly six characters,
  validation succeeds and the conversion proceeds. The stripping does remove the first
  \<open>#\<close> wherever it occurs, but U+0130 followed by \<open>fffff\<close> has six characters and
  lower-cases to seven code units with no six hexadecimal digits in a row: validation
  fails, the handler shows the notification and the conversion throws.
\<close>

theorem C10_dotted_I_rejected:
  "length (replaceHash (U0130 # str ''fffff'')) = 6
   \<and> \<not> validateHexString (sanitisedHex (U0130 # str ''fffff''))
   \<and> convertHexToRgb (U0130 # str ''fffff'') = Inl Invalid_HEX_input
   \<and> validateForegroundInput (U0130 # str ''fffff'') initialState =
       (initialState, [\<lparr>message = ''Please enter a valid HEX value'', isError = True\<rparr>])"
proof -
  have v: "\<not> validateHexString (sanitisedHex (U0130 # str ''fffff''))" by code_simp
  have "length (replaceHash (U0130 # str ''fffff'')) = 6" by (simp add: str_def)
  moreover have "convertHexToRgb (U0130 # str ''fffff'') = Inl Invalid_HEX_input"
    using v by (simp add: convertHexToRgb_def)
  ultimately show ?thesis using v by (simp add: validateForegroundInput_def)
qed

text \<open>
  C10, amended: the stripping removes the first \<open>#\<close> wherever it occurs in the string.
  For every input of code units below 256 whose stripped string has exactly six
  characters, as \<open>abc#def\<close>, validation succeeds, the handler stores the input, and the
  conversion parses the pairs of the stripped, lower-cased string.
\<close>

theorem C10_first_hash_removed:
  assumes "list_all isLatin1 input" "length (replaceHash input) = 6"
  shows "validateHexString (sanitisedHex input)
         \<and> convertHexToRgb input =
             Inr [parseInt16 (take 2 (toLowerCase (replaceHash input))),
                  parseInt16 (take 2 (drop 2 (toLowerCase (replaceHash input)))),
                  parseInt16 (drop 4 (toLowerCase (replaceHash input)))]
         \<and> validateForegroundInput input st = (st\<lparr>foreground := input\<rparr>, [])
         \<and> (\<forall>pre post. input = pre @ Latin1 CHR ''#'' # post \<and> Latin1 CHR ''#'' \<notin> set pre
               \<longrightarrow> replaceHash input = pre @ post)"
proof -
  have len: "length (sanitisedHex input) = 6"
    using assms by (simp add: length_sanitisedHex)
  then have v: "validateHexString (sanitisedHex input)" by (simp add: validateHexString_def)
  have "take 6 (sanitisedHex input) = toLowerCase (replaceHash input)"
    using len by (simp add: sanitisedHex_def)
  with convert_validated [OF v] v replaceHash_first show ?thesis
    by (simp add: validateForegroundInput_def)
qed

theorem C10_first_hash_removed_abc_def:
  "list_all isLatin1 (str ''abc#def'')
   \<and> length (replaceHash (str ''abc#def'')) = 6
   \<and> replaceHash (str ''abc#def'') = str ''abcdef''
   \<and> validateHexString (sanitisedHex (str ''abc#def''))
   \<and> convertHexToRgb (str ''abc#def'') = Inr [Some 171, Some 205, Some 239]
   \<and> foreground (fst (validateForegroundInput (str ''abc#def'') initialState)) = str ''abc#def''"
  using C10_first_hash_removed [OF abc_def_Latin1 abc_def, of initialState] abc_def_Latin1
  by (simp add: abcdef_lower replace_abc_def) (simp add: str_def parse_abcdef)

end
